theory Spec2Isabelle
  imports Main "HOL-Library.Word"
begin

section \<open>Bytes, buffers and thrown errors\<close>

text \<open>
  The scripts build their instruction payloads from Node \<^verbatim>\<open>Buffer\<close>s. A buffer is a
  list of bytes. A JavaScript string is represented by its UTF-8 bytes, one \<open>char\<close> per
  byte, so \<^verbatim>\<open>Buffer.from(str)\<close> (default encoding \<^verbatim>\<open>utf8\<close>) reads the bytes off and
  \<^verbatim>\<open>buf.length\<close> is the length of the list.
\<close>

type_synonym byte = "8 word"
type_synonym buffer = "byte list"

text \<open>
  What a script can throw while it evaluates its top-level statements. An error carries
  the identifier it is about or the leading words of its message; the message of a
  \<^verbatim>\<open>RangeError\<close> depends on the write that went out of range and is left out.
\<close>

datatype js_error =
  ReferenceError string
  | AssertionError string
  | RangeError
  | PlainError string
  | RpcError string
  | TransactionExpiredTimeoutError string

definition Buffer_from_string :: "string \<Rightarrow> buffer" where
  "Buffer_from_string s = map (\<lambda>c. of_nat (of_char c)) s"

text \<open>
  \<^verbatim>\<open>Array.from({ length: n }, () => 0)\<close>: the array-like's length goes through
  \<^verbatim>\<open>ToLength\<close>, which takes every number below zero to zero; the array then holds
  that many zeros. \<^verbatim>\<open>Buffer.from(array)\<close> keeps each entry modulo 256.
\<close>

definition ToLength :: "int \<Rightarrow> nat" where
  "ToLength n = (if n \<le> 0 then 0 else nat n)"

definition Array_from_length :: "int \<Rightarrow> int list" where
  "Array_from_length n = replicate (ToLength n) 0"

definition Buffer_from_array :: "int list \<Rightarrow> buffer" where
  "Buffer_from_array xs = map word_of_int xs"

text \<open>
  \<^verbatim>\<open>Buffer.from(Int8Array.from([v]).buffer)\<close>: each entry is stored as a signed 8-bit
  value (wrapping), and the buffer over the same memory reads the raw bytes back.
\<close>

definition Int8Array_from :: "int list \<Rightarrow> buffer" where
  "Int8Array_from xs = map word_of_int xs"

definition Buffer_concat :: "buffer list \<Rightarrow> buffer" where
  "Buffer_concat bs = concat bs"

section \<open>Module scopes\<close>

text \<open>
  Each script is an ES module: an identifier is bound in it only when the module imports
  it, declares it at top level, or it is a global of the runtime. Reading any other
  identifier throws \<^verbatim>\<open>ReferenceError\<close>.
\<close>

definition node_globals :: "string list" where
  "node_globals = [''Buffer'', ''Array'', ''Int8Array'', ''Uint8Array'', ''console'']"

definition helper_imports :: "string list" where
  "helper_imports =
     [''PublicKey'', ''clusterApiUrl'', ''Connection'', ''Keypair'', ''TransactionInstruction'',
      ''Transaction'', ''ComputeBudgetProgram'', ''anchor'', ''BN'']"

definition sendRequest_imports :: "string list" where
  "sendRequest_imports =
     [''PublicKey'', ''TransactionInstruction'', ''Transaction'',
      ''PROGRAM'', ''CONNECTION'', ''transaction'', ''WALLET'']"

definition sendRequest_toplevel :: "string list" where
  "sendRequest_toplevel =
     [''bookkeeper'', ''request'', ''keys'', ''name'', ''nameBuffer'', ''zeroesBuffer'',
      ''namee'', ''input'', ''zeros'', ''ip'', ''data'', ''tx'', ''sign'']"

definition sendRequest_scope :: "string list" where
  "sendRequest_scope = sendRequest_imports @ sendRequest_toplevel @ node_globals"

definition resolve :: "string list \<Rightarrow> string \<Rightarrow> js_error + unit" where
  "resolve scope x = (if x \<in> set scope then Inr () else Inl (ReferenceError x))"

section \<open>The SendRequest payload\<close>

text \<open>
  \<^verbatim>\<open>nameBuffer\<close>, \<^verbatim>\<open>zeroesBuffer\<close> and \<^verbatim>\<open>namee\<close>; \<^verbatim>\<open>input\<close>, \<^verbatim>\<open>zeros\<close> and \<^verbatim>\<open>ip\<close>.
  The script fixes the name and the data; here they are arguments.
\<close>

definition zeroesBuffer :: "buffer \<Rightarrow> buffer" where
  "zeroesBuffer nameBuffer =
     Buffer_from_array (Array_from_length (128 - int (length nameBuffer)))"

definition namee :: "buffer \<Rightarrow> buffer" where
  "namee nameBuffer = Buffer_concat [nameBuffer, zeroesBuffer nameBuffer]"

definition zeros :: "buffer \<Rightarrow> buffer" where
  "zeros input = Buffer_from_array (Array_from_length (512 - int (length input)))"

definition ip :: "buffer \<Rightarrow> buffer" where
  "ip input = Buffer_concat [input, zeros input]"

text \<open>
  The library \<^verbatim>\<open>bn.js\<close>. \<^verbatim>\<open>new BN(n)\<close> for a number asserts \<open>n < 2^53\<close>.
  \<^verbatim>\<open>toArray("le", length)\<close> takes the requested length, or the byte length of the
  value (at least 1) when the requested length is 0, asserts that the value fits, and
  returns that many bytes, least significant first, the high ones zero.
\<close>

definition BN_new :: "nat \<Rightarrow> js_error + nat" where
  "BN_new n = (if n < 2 ^ 53 then Inr n else Inl (AssertionError ''Assertion failed''))"

fun byteLength :: "nat \<Rightarrow> nat" where
  "byteLength v = (if v = 0 then 0 else Suc (byteLength (v div 256)))"

fun le_bytes :: "nat \<Rightarrow> nat \<Rightarrow> buffer" where
  "le_bytes 0 v = []"
| "le_bytes (Suc k) v = of_nat (v mod 256) # le_bytes k (v div 256)"

definition BN_toArray_le :: "nat \<Rightarrow> nat \<Rightarrow> js_error + buffer" where
  "BN_toArray_le v len =
     (let reqLength = (if len = 0 then max 1 (byteLength v) else len)
      in if reqLength < byteLength v
         then Inl (AssertionError ''byte array longer than desired length'')
         else Inr (le_bytes reqLength v))"

text \<open>
  The position element \<^verbatim>\<open>Buffer.from(Uint8Array.of(...new BN(5).toArray("le", 8)))\<close>:
  the identifier \<^verbatim>\<open>BN\<close> is looked up in the scope of the module first.
\<close>

definition position_field :: "string list \<Rightarrow> nat \<Rightarrow> js_error + buffer" where
  "position_field scope position =
     (case resolve scope ''BN'' of
        Inl e \<Rightarrow> Inl e
      | Inr _ \<Rightarrow>
          (case BN_new position of
             Inl e \<Rightarrow> Inl e
           | Inr v \<Rightarrow> BN_toArray_le v 8))"

text \<open>
  \<^verbatim>\<open>const data = Buffer.concat([...])\<close>: the elements of the array literal are
  evaluated in order; only the position element can throw.
\<close>

definition sendRequest_data ::
  "string list \<Rightarrow> int \<Rightarrow> int \<Rightarrow> buffer \<Rightarrow> int \<Rightarrow> nat \<Rightarrow> buffer \<Rightarrow> js_error + buffer" where
  "sendRequest_data scope clientId requestType nameBuffer fileId position input =
     (let e1 = Int8Array_from [3];
          e2 = Int8Array_from [clientId];
          e3 = Int8Array_from [requestType];
          e4 = namee nameBuffer;
          e5 = Int8Array_from [fileId]
      in case position_field scope position of
           Inl e \<Rightarrow> Inl e
         | Inr e6 \<Rightarrow> Inr (Buffer_concat [e1, e2, e3, e4, e5, e6, ip input]))"

text \<open>The values the script hard-codes.\<close>

definition name :: string where
  "name = ''dir-2/file-1''"

definition sendRequest_script_data :: "js_error + buffer" where
  "sendRequest_script_data =
     sendRequest_data sendRequest_scope 0 1 (Buffer_from_string name) 45 5
       (Buffer_from_string ''test3'')"

section \<open>The DeleteClient and CreateClientAccount payloads\<close>

definition deleteClient_data :: "int \<Rightarrow> buffer" where
  "deleteClient_data clientId = Buffer_concat [Int8Array_from [2], Int8Array_from [clientId]]"

definition createClientAccount_data :: buffer where
  "createClientAccount_data = Int8Array_from [1]"

section \<open>Accounts and instructions\<close>

text \<open>
  Public keys are kept symbolic: the program address is the base-58 literal of
  \<^verbatim>\<open>helper.js\<close>, a key pair's public key is determined by its secret key, and
  \<^verbatim>\<open>PublicKey.findProgramAddressSync(seeds, program)[0]\<close> is determined by the seeds and
  the program (the hashing itself is the ledger library's).
\<close>

datatype pubkey =
  PublicKey string
  | Keypair_publicKey buffer
  | ProgramAddress "seed list" pubkey
  | SystemProgram_programId
  | SYSVAR_RENT_PUBKEY
  | ComputeBudgetProgram_programId
and seed =
  Seed_bytes buffer
  | Seed_pubkey pubkey

record Keypair =
  secretKey :: buffer

definition publicKey :: "Keypair \<Rightarrow> pubkey" where
  "publicKey kp = Keypair_publicKey (secretKey kp)"

definition findProgramAddressSync_0 :: "seed list \<Rightarrow> pubkey \<Rightarrow> pubkey" where
  "findProgramAddressSync_0 seeds program = ProgramAddress seeds program"

record AccountMeta =
  pubkey :: pubkey
  isSigner :: bool
  isWritable :: bool

record TransactionInstruction =
  keys :: "AccountMeta list"
  programId :: pubkey
  data :: buffer

subsection \<open>The constants of \<^verbatim>\<open>helper.js\<close>\<close>

definition key :: "int list" where
  "key =
     [190, 193, 120, 250, 149, 178, 94, 52, 206, 110, 89, 151, 89, 109, 26, 49, 186,
      112, 209, 9, 158, 240, 185, 6, 106, 26, 47, 222, 57, 110, 24, 236, 71, 78,
      122, 183, 125, 16, 86, 144, 130, 239, 169, 17, 208, 51, 63, 228, 133, 110, 28,
      58, 26, 7, 214, 63, 70, 95, 8, 131, 251, 143, 119, 143]"

definition WALLET :: Keypair where
  "WALLET = \<lparr>secretKey = map word_of_int key\<rparr>"

definition PROGRAM :: pubkey where
  "PROGRAM = PublicKey ''ALFYRwSZYXC31JpfSr2yKJ2aHBkbAQ7JXkGydnP3bxrN''"

subsection \<open>The derived accounts and the account lists of the three scripts\<close>

definition bookkeeper :: pubkey where
  "bookkeeper = findProgramAddressSync_0 [Seed_bytes (Buffer_from_string ''bookkeeper'')] PROGRAM"

definition request :: pubkey where
  "request =
     findProgramAddressSync_0
       [Seed_bytes (Buffer_from_string ''request''), Seed_pubkey (publicKey WALLET)] PROGRAM"

definition sendRequest_keys :: "AccountMeta list" where
  "sendRequest_keys =
     [\<lparr>pubkey = publicKey WALLET, isSigner = True, isWritable = True\<rparr>,
      \<lparr>pubkey = request, isSigner = False, isWritable = True\<rparr>]"

definition deleteClient_keys :: "AccountMeta list" where
  "deleteClient_keys =
     [\<lparr>pubkey = publicKey WALLET, isSigner = True, isWritable = True\<rparr>,
      \<lparr>pubkey = bookkeeper, isSigner = False, isWritable = True\<rparr>,
      \<lparr>pubkey = request, isSigner = False, isWritable = True\<rparr>]"

definition createClientAccount_keys :: "AccountMeta list" where
  "createClientAccount_keys =
     [\<lparr>pubkey = publicKey WALLET, isSigner = True, isWritable = True\<rparr>,
      \<lparr>pubkey = bookkeeper, isSigner = False, isWritable = True\<rparr>,
      \<lparr>pubkey = request, isSigner = False, isWritable = True\<rparr>,
      \<lparr>pubkey = SystemProgram_programId, isSigner = False, isWritable = False\<rparr>,
      \<lparr>pubkey = SYSVAR_RENT_PUBKEY, isSigner = False, isWritable = False\<rparr>]"

section \<open>Assembling, signing and submitting: \<^verbatim>\<open>transaction\<close>\<close>

text \<open>
  A transaction under construction. A blockhash, as the network hands it out, is the
  base-58 form of 32 bytes; it is kept as these 256 bits. Signatures are symbolic: the
  list of the keys that have signed. The wire form sent to the network is the signed
  transaction itself.
\<close>

type_synonym blockhash = "256 word"

record Transaction =
  instructions :: "TransactionInstruction list"
  recentBlockhash :: "blockhash option"
  feePayer :: "pubkey option"
  signatures :: "pubkey list"

definition new_Transaction :: Transaction where
  "new_Transaction =
     \<lparr>instructions = [], recentBlockhash = None, feePayer = None, signatures = []\<rparr>"

definition add :: "Transaction \<Rightarrow> TransactionInstruction \<Rightarrow> Transaction" where
  "add t i = t\<lparr>instructions := instructions t @ [i]\<rparr>"

text \<open>
  \<^verbatim>\<open>ComputeBudgetProgram.setComputeUnitLimit({ units })\<close>: no accounts, the
  compute-budget program, and the data \<open>02\<close> followed by the units as 4 bytes,
  least significant first.
\<close>

definition setComputeUnitLimit :: "nat \<Rightarrow> TransactionInstruction" where
  "setComputeUnitLimit units =
     \<lparr>keys = [], programId = ComputeBudgetProgram_programId, data = 2 # le_bytes 4 units\<rparr>"

subsection \<open>Compiling a transaction to a message\<close>

text \<open>
  The fee payer is the one set on the transaction, or else the first key of the
  signature list. The accounts of the message are the fee payer, the accounts of the
  instructions and their programs, each once. A key of the signature list that is no
  account of the message is an unknown signer; one that is an account counts as a
  required signer, like the fee payer and every account an instruction marks as signer.
\<close>

definition fee_payer :: "Transaction \<Rightarrow> pubkey option" where
  "fee_payer t =
     (case feePayer t of
        Some p \<Rightarrow> Some p
      | None \<Rightarrow> (case signatures t of [] \<Rightarrow> None | k # _ \<Rightarrow> Some k))"

definition account_keys :: "Transaction \<Rightarrow> pubkey list" where
  "account_keys t =
     remdups
       ((case fee_payer t of None \<Rightarrow> [] | Some p \<Rightarrow> [p]) @
        map pubkey (concat (map keys (instructions t))) @
        map programId (instructions t))"

definition required_signers :: "Transaction \<Rightarrow> pubkey list" where
  "required_signers t =
     remdups
       ((case fee_payer t of None \<Rightarrow> [] | Some p \<Rightarrow> [p]) @
        map pubkey (filter isSigner (concat (map keys (instructions t)))) @
        filter (\<lambda>k. k \<in> set (account_keys t)) (signatures t))"

definition compile_error :: "Transaction \<Rightarrow> js_error option" where
  "compile_error t =
     (if recentBlockhash t = None
      then Some (PlainError ''Transaction recentBlockhash required'')
      else if fee_payer t = None
      then Some (PlainError ''Transaction fee payer required'')
      else if list_ex (\<lambda>k. k \<notin> set (account_keys t)) (signatures t)
      then Some (PlainError ''unknown signer'')
      else None)"

text \<open>
  The size of the serialized message. A count is written in one byte below 128, in two
  below 16384 and in three otherwise. The message is a header of three bytes, the
  account keys and the blockhash of 32 bytes each, and the instructions; an instruction
  is the index of its program, the indices of its accounts, and its data. The wire form
  puts a signature of 64 bytes for every required signer in front.
\<close>

definition compact_len :: "nat \<Rightarrow> nat" where
  "compact_len n = (if n < 128 then 1 else if n < 16384 then 2 else 3)"

definition instruction_size :: "TransactionInstruction \<Rightarrow> nat" where
  "instruction_size i =
     1 + compact_len (length (keys i)) + length (keys i) +
     compact_len (length (data i)) + length (data i)"

definition instructions_size :: "Transaction \<Rightarrow> nat" where
  "instructions_size t =
     compact_len (length (instructions t)) + sum_list (map instruction_size (instructions t))"

definition header_size :: "Transaction \<Rightarrow> nat" where
  "header_size t =
     3 + compact_len (length (account_keys t)) + 32 * length (account_keys t) + 32"

definition wire_size :: "Transaction \<Rightarrow> nat" where
  "wire_size t =
     compact_len (length (required_signers t)) + 64 * length (required_signers t) +
     header_size t + instructions_size t"

text \<open>
  Serializing the message writes the instructions into a buffer of 1232 bytes and the
  header into one of 2048 bytes; writing beyond either throws \<^verbatim>\<open>RangeError\<close>.
\<close>

definition message_error :: "Transaction \<Rightarrow> js_error option" where
  "message_error t =
     (case compile_error t of
        Some e \<Rightarrow> Some e
      | None \<Rightarrow>
          (if 1232 < instructions_size t \<or> 2048 < header_size t
           then Some RangeError
           else None))"

text \<open>
  \<^verbatim>\<open>sign(kp)\<close> makes the key pair the only entry of the signature list, compiles and
  serializes the message, and signs it. \<^verbatim>\<open>serialize()\<close> compiles and serializes the
  message again, throws unless every required signer has signed, and throws when the
  wire form is longer than 1232 bytes.
\<close>

definition sign :: "Transaction \<Rightarrow> Keypair \<Rightarrow> js_error + Transaction" where
  "sign t kp =
     (let t1 = t\<lparr>signatures := [publicKey kp]\<rparr>
      in case message_error t1 of
           Some e \<Rightarrow> Inl e
         | None \<Rightarrow> Inr t1)"

definition serialize :: "Transaction \<Rightarrow> js_error + Transaction" where
  "serialize t =
     (case message_error t of
        Some e \<Rightarrow> Inl e
      | None \<Rightarrow>
          (if \<not> list_all (\<lambda>k. k \<in> set (signatures t)) (required_signers t)
           then Inl (PlainError ''Signature verification failed'')
           else if 1232 < wire_size t
           then Inl (PlainError ''Transaction too large'')
           else Inr t))"

subsection \<open>The connection and \<^verbatim>\<open>transaction\<close>\<close>

text \<open>
  The connection: three remote calls, each of which changes the state \<open>'n\<close> of the
  network and either returns or throws. \<^verbatim>\<open>confirmTransaction\<close> resolves with the
  status of the transaction, which may itself report an on-chain error.
\<close>

datatype commitment = Processed | Confirmed | Finalized

datatype signature_result = Result_ok | Result_err string

record 'n Connection =
  getLatestBlockhash :: "'n \<Rightarrow> (js_error + blockhash) \<times> 'n"
  sendRawTransaction :: "Transaction \<Rightarrow> 'n \<Rightarrow> (js_error + string) \<times> 'n"
  confirmTransaction :: "string \<Rightarrow> commitment \<Rightarrow> 'n \<Rightarrow> (js_error + signature_result) \<times> 'n"

datatype call =
  GetLatestBlockhash
  | SendRawTransaction Transaction
  | ConfirmTransaction string commitment

text \<open>
  \<^verbatim>\<open>transaction(tx, connection, wallet)\<close>. The result is what the function returns or
  throws, the remote calls it made, in order, and the state of the network afterwards.
\<close>

definition transaction ::
  "TransactionInstruction \<Rightarrow> 'n Connection \<Rightarrow> Keypair \<Rightarrow> 'n
     \<Rightarrow> (js_error + string) \<times> call list \<times> 'n" where
  "transaction tx connection wallet n =
     (let ins = setComputeUnitLimit 600000;
          ix = add (add new_Transaction ins) tx
      in case getLatestBlockhash connection n of
           (Inl e, n1) \<Rightarrow> (Inl e, [GetLatestBlockhash], n1)
         | (Inr blockhash, n1) \<Rightarrow>
             (let ix = ix\<lparr>recentBlockhash := Some blockhash\<rparr>;
                  ix = ix\<lparr>feePayer := Some (publicKey wallet)\<rparr>
              in case sign ix wallet of
                   Inl e \<Rightarrow> (Inl e, [GetLatestBlockhash], n1)
                 | Inr ix \<Rightarrow>
                     (case serialize ix of
                        Inl e \<Rightarrow> (Inl e, [GetLatestBlockhash], n1)
                      | Inr raw \<Rightarrow>
                          (case sendRawTransaction connection raw n1 of
                             (Inl e, n2) \<Rightarrow>
                               (Inl e, [GetLatestBlockhash, SendRawTransaction raw], n2)
                           | (Inr sg, n2) \<Rightarrow>
                               (case confirmTransaction connection sg Confirmed n2 of
                                  (Inl e, n3) \<Rightarrow>
                                    (Inl e,
                                     [GetLatestBlockhash, SendRawTransaction raw,
                                      ConfirmTransaction sg Confirmed], n3)
                                | (Inr _, n3) \<Rightarrow>
                                    (Inr sg,
                                     [GetLatestBlockhash, SendRawTransaction raw,
                                      ConfirmTransaction sg Confirmed], n3))))))"

subsection \<open>The three scripts, from their payload to the call of \<^verbatim>\<open>transaction\<close>\<close>

definition sendRequest_script ::
  "'n Connection \<Rightarrow> 'n \<Rightarrow> (js_error + string) \<times> call list \<times> 'n" where
  "sendRequest_script connection n =
     (case sendRequest_script_data of
        Inl e \<Rightarrow> (Inl e, [], n)
      | Inr d \<Rightarrow>
          transaction \<lparr>keys = sendRequest_keys, programId = PROGRAM, data = d\<rparr>
            connection WALLET n)"

definition deleteClient_tx :: TransactionInstruction where
  "deleteClient_tx =
     \<lparr>keys = deleteClient_keys, programId = PROGRAM, data = deleteClient_data 0\<rparr>"

definition deleteClient_script ::
  "'n Connection \<Rightarrow> 'n \<Rightarrow> (js_error + string) \<times> call list \<times> 'n" where
  "deleteClient_script connection n = transaction deleteClient_tx connection WALLET n"

definition createClientAccount_tx :: TransactionInstruction where
  "createClientAccount_tx =
     \<lparr>keys = createClientAccount_keys, programId = PROGRAM, data = createClientAccount_data\<rparr>"

definition createClientAccount_script ::
  "'n Connection \<Rightarrow> 'n \<Rightarrow> (js_error + string) \<times> call list \<times> 'n" where
  "createClientAccount_script connection n =
     transaction createClientAccount_tx connection WALLET n"

text \<open>The remote calls of a run, by kind.\<close>

fun is_fetch :: "call \<Rightarrow> bool" where
  "is_fetch GetLatestBlockhash = True"
| "is_fetch _ = False"

fun is_send :: "call \<Rightarrow> bool" where
  "is_send (SendRawTransaction _) = True"
| "is_send _ = False"


text \<open>
  What a run for the CreateClientAccount instruction submits when the blockhash it
  fetched is \<open>bh\<close>.
\<close>

definition createClientAccount_envelope :: "blockhash \<Rightarrow> Transaction" where
  "createClientAccount_envelope bh =
     \<lparr>instructions = [setComputeUnitLimit 600000, createClientAccount_tx],
      recentBlockhash = Some bh, feePayer = Some (publicKey WALLET),
      signatures = [publicKey WALLET]\<rparr>"

subsection \<open>A network whose first blockhash has expired\<close>

text \<open>
  The state counts the blockhashes handed out. The first one, \<open>0\<close>, is already
  expired when a transaction stamped with it arrives; every later one, \<open>1\<close>, is fresh.
\<close>

definition stale_first :: "nat Connection" where
  "stale_first =
     \<lparr>getLatestBlockhash = (\<lambda>n. (Inr (if n = 0 then 0 else 1), Suc n)),
      sendRawTransaction =
        (\<lambda>raw n. (if recentBlockhash raw = Some 1 then Inr ''5sig''
                   else Inl (RpcError ''Blockhash not found''), n)),
      confirmTransaction = (\<lambda>sg c n. (Inr Result_ok, n))\<rparr>"

subsection \<open>A network with a given outcome of the confirmation poll\<close>


section \<open>Padding of the name and data fields\<close>

lemma ToLength_diff: "ToLength (int a - int n) = a - n"
  unfolding ToLength_def by (cases "a \<le> n") (simp_all add: nat_diff_distrib')

lemma zeroesBuffer_eq: "zeroesBuffer nb = replicate (128 - length nb) 0"
  using ToLength_diff [of 128 "length nb"]
  by (simp add: zeroesBuffer_def Buffer_from_array_def Array_from_length_def)

lemma zeros_eq: "zeros inp = replicate (512 - length inp) 0"
  using ToLength_diff [of 512 "length inp"]
  by (simp add: zeros_def Buffer_from_array_def Array_from_length_def)

lemma namee_eq: "namee nb = nb @ replicate (128 - length nb) 0"
  by (simp add: namee_def Buffer_concat_def zeroesBuffer_eq)

lemma ip_eq: "ip inp = inp @ replicate (512 - length inp) 0"
  by (simp add: ip_def Buffer_concat_def zeros_eq)

text \<open>
  C5. For every name of at most 128 bytes and every data input of at most 512 bytes, the
  name field is exactly 128 bytes and the data field exactly 512 bytes, and each is the
  input followed by zero bytes on the right: nothing is put in front of the input and
  nothing of it is cut off.
\<close>

theorem fields_right_padded:
  assumes "length nb \<le> 128" and "length inp \<le> 512"
  shows "length (namee nb) = 128 \<and> length (ip inp) = 512 \<and>
         namee nb = nb @ replicate (128 - length nb) 0 \<and>
         ip inp = inp @ replicate (512 - length inp) 0 \<and>
         take (length nb) (namee nb) = nb \<and> take (length inp) (ip inp) = inp"
  using assms by (simp add: namee_eq ip_eq)

theorem fields_right_padded_witness:
  "length (Buffer_from_string ''dir-2/file-1'') \<le> 128 \<and>
   length (Buffer_from_string ''test3'') \<le> 512 \<and>
   length (namee (Buffer_from_string ''dir-2/file-1'')) = 128 \<and>
   length (ip (Buffer_from_string ''test3'')) = 512 \<and>
   namee (Buffer_from_string ''dir-2/file-1'') =
     Buffer_from_string ''dir-2/file-1'' @ replicate 116 0 \<and>
   ip (Buffer_from_string ''test3'') = Buffer_from_string ''test3'' @ replicate 507 0"
  using fields_right_padded [of "Buffer_from_string ''dir-2/file-1''" "Buffer_from_string ''test3''"]
  by (simp add: Buffer_from_string_def)

lemma BN_unbound: "resolve sendRequest_scope ''BN'' = Inl (ReferenceError ''BN'')"
  by (simp add: resolve_def sendRequest_scope_def sendRequest_imports_def
      sendRequest_toplevel_def node_globals_def)

lemma sendRequest_data_unbound:
  "sendRequest_data sendRequest_scope c r nb f p inp = Inl (ReferenceError ''BN'')"
  by (simp add: sendRequest_data_def position_field_def BN_unbound)

text \<open>
  C1 (as stated). The claim asks for a size error on a name of more than 128 bytes or
  data of more than 512 bytes. The scripts make no such check: a name of 129 bytes and
  data of 513 bytes go through the field builders unchanged, and the only thing the
  payload expression throws for them is the unbound identifier, as for any other input.
\<close>

theorem oversized_inputs_counterexample:
  "namee (replicate 129 0x61) = replicate 129 0x61 \<and>
   ip (replicate 513 0x78) = replicate 513 0x78 \<and>
   sendRequest_data sendRequest_scope 0 1 (replicate 129 0x61) 45 5 (replicate 513 0x78)
     = Inl (ReferenceError ''BN'')"
  by (simp add: namee_eq ip_eq sendRequest_data_unbound)

text \<open>
  C1 (amended). For every name of more than 128 bytes and every data input of more than
  512 bytes no size check is made: the name field built from the name is the name's
  bytes unchanged, and the data field built from the data is the data's bytes
  unchanged, neither truncated nor padded, and so longer than 128 and 512 bytes. The
  payload expression throws exactly when its position element throws, and then the
  same error, whatever the name and the data: there is no error for their size.
\<close>

theorem oversized_fields_unchanged:
  "(128 < length nb \<longrightarrow> namee nb = nb \<and> 128 < length (namee nb)) \<and>
   (512 < length inp \<longrightarrow> ip inp = inp \<and> 512 < length (ip inp)) \<and>
   (sendRequest_data scope c r nb f p inp = Inl e \<longleftrightarrow> position_field scope p = Inl e)"
proof -
  have "sendRequest_data scope c r nb f p inp = Inl e \<longleftrightarrow> position_field scope p = Inl e"
    by (simp add: sendRequest_data_def split: sum.splits)
  then show ?thesis
    by (simp add: namee_eq ip_eq)
qed

theorem oversized_fields_unchanged_witness:
  "128 < length (replicate 129 (0x61 :: byte)) \<and>
   namee (replicate 129 0x61) = replicate 129 0x61 \<and>
   512 < length (replicate 513 (0x78 :: byte)) \<and>
   ip (replicate 513 0x78) = replicate 513 0x78 \<and>
   sendRequest_data sendRequest_scope 0 1 (replicate 129 0x61) 45 5 (replicate 513 0x78)
     = Inl (ReferenceError ''BN'') \<and>
   position_field sendRequest_scope 5 = Inl (ReferenceError ''BN'')"
  using oversized_fields_unchanged
          [of "replicate 129 0x61" "replicate 513 0x78" sendRequest_scope 0 1 45 5
              "ReferenceError ''BN''"]
  by (simp add: sendRequest_data_unbound)

section \<open>The position field and the unbound identifier\<close>

lemma length_le_bytes: "length (le_bytes k v) = k"
  by (induction k arbitrary: v) simp_all

lemma le_bytes_numeral:
  "le_bytes (numeral k) v = of_nat (v mod 256) # le_bytes (pred_numeral k) (v div 256)"
  by (simp only: numeral_eq_Suc le_bytes.simps)

lemma byteLength_le: "v < 256 ^ k \<Longrightarrow> byteLength v \<le> k"
proof (induction k arbitrary: v)
  case 0
  then show ?case by simp
next
  case (Suc k)
  show ?case
  proof (cases "v = 0")
    case True
    then show ?thesis by simp
  next
    case False
    from Suc.prems have "v div 256 < 256 ^ k"
      by (simp add: less_mult_imp_div_less mult.commute)
    then have "byteLength (v div 256) \<le> k"
      by (rule Suc.IH)
    with False show ?thesis
      by (subst byteLength.simps) simp
  qed
qed

lemma byteLength_safe_integer: "p < 2 ^ 53 \<Longrightarrow> byteLength p \<le> 8"
proof -
  assume "p < 2 ^ 53"
  also have "(2 :: nat) ^ 53 < 256 ^ 8" by simp
  finally show ?thesis by (rule byteLength_le)
qed

lemma position_field_bound:
  "''BN'' \<in> set scope \<Longrightarrow> p < 2 ^ 53 \<Longrightarrow> position_field scope p = Inr (le_bytes 8 p)"
  using byteLength_safe_integer [of p]
  by (simp add: position_field_def resolve_def BN_new_def BN_toArray_le_def
      del: byteLength.simps)

lemma BN_bound_in_helper: "resolve helper_imports ''BN'' = Inr ()"
  by (simp add: resolve_def helper_imports_def)

text \<open>
  C2. The module \<^verbatim>\<open>sendRequest.js\<close> does not bind \<^verbatim>\<open>BN\<close>. Whatever the field
  values, evaluating the position element throws \<^verbatim>\<open>ReferenceError\<close> for \<^verbatim>\<open>BN\<close>, so
  the payload expression throws it too, and the script ends with that error without
  having built an instruction or made a single remote call.
\<close>

theorem sendRequest_never_produces_payload:
  "''BN'' \<notin> set sendRequest_scope \<and>
   position_field sendRequest_scope p = Inl (ReferenceError ''BN'') \<and>
   sendRequest_data sendRequest_scope c r nb f p inp = Inl (ReferenceError ''BN'') \<and>
   sendRequest_script connection n = (Inl (ReferenceError ''BN''), [], n)"
proof -
  have "''BN'' \<notin> set sendRequest_scope"
    by (simp add: sendRequest_scope_def sendRequest_imports_def sendRequest_toplevel_def
        node_globals_def)
  moreover have "position_field sendRequest_scope p = Inl (ReferenceError ''BN'')"
    by (simp add: position_field_def BN_unbound)
  moreover have "sendRequest_script connection n = (Inl (ReferenceError ''BN''), [], n)"
    by (simp add: sendRequest_script_def sendRequest_script_data_def sendRequest_data_unbound)
  ultimately show ?thesis
    by (simp add: sendRequest_data_unbound)
qed

text \<open>
  C3. With the values of the script (client 0, request type 1, name \<^verbatim>\<open>dir-2/file-1\<close>,
  file 45, position 5, data \<^verbatim>\<open>test3\<close>) the payload expression throws instead of
  yielding the 652 bytes. Were \<^verbatim>\<open>BN\<close> bound in the module, as it is in
  \<^verbatim>\<open>helper.js\<close>, the same expression would yield exactly the bytes of the claim.
\<close>

theorem sendRequest_script_data_throws:
  "sendRequest_script_data = Inl (ReferenceError ''BN'') \<and>
   sendRequest_data (''BN'' # sendRequest_scope) 0 1 (Buffer_from_string name) 45 5
       (Buffer_from_string ''test3'')
     = Inr ([0x03, 0x00, 0x01] @ Buffer_from_string ''dir-2/file-1'' @ replicate 116 0 @
            [0x2D] @ [0x05, 0, 0, 0, 0, 0, 0, 0] @
            Buffer_from_string ''test3'' @ replicate 507 0) \<and>
   length ([0x03, 0x00, 0x01] @ Buffer_from_string ''dir-2/file-1'' @ replicate 116 0 @
           [0x2D] @ [0x05, 0, 0, 0, 0, 0, 0, 0] @
           Buffer_from_string ''test3'' @ replicate 507 (0 :: byte)) = 652"
proof -
  have "sendRequest_script_data = Inl (ReferenceError ''BN'')"
    by (simp add: sendRequest_script_data_def sendRequest_data_unbound)
  moreover have
    "sendRequest_data (''BN'' # sendRequest_scope) 0 1 (Buffer_from_string name) 45 5
         (Buffer_from_string ''test3'')
       = Inr ([0x03, 0x00, 0x01] @ Buffer_from_string ''dir-2/file-1'' @ replicate 116 0 @
              [0x2D] @ [0x05, 0, 0, 0, 0, 0, 0, 0] @
              Buffer_from_string ''test3'' @ replicate 507 0)"
    by (simp add: sendRequest_data_def position_field_bound le_bytes_numeral namee_eq ip_eq
        Buffer_concat_def Int8Array_from_def name_def Buffer_from_string_def)
  moreover have
    "length ([0x03, 0x00, 0x01] @ Buffer_from_string ''dir-2/file-1'' @ replicate 116 0 @
             [0x2D] @ [0x05, 0, 0, 0, 0, 0, 0, 0] @
             Buffer_from_string ''test3'' @ replicate 507 (0 :: byte)) = 652"
    by (simp add: Buffer_from_string_def)
  ultimately show ?thesis by simp
qed

text \<open>
  C7. In the script the position element throws before any byte is produced. Were
  \<^verbatim>\<open>BN\<close> bound, position 5 would be encoded as \<open>05 00 00 00 00 00 00 00\<close>.
\<close>

theorem position_field_throws:
  "position_field sendRequest_scope 5 = Inl (ReferenceError ''BN'') \<and>
   position_field (''BN'' # sendRequest_scope) 5 = Inr [0x05, 0, 0, 0, 0, 0, 0, 0]"
proof
  show "position_field sendRequest_scope 5 = Inl (ReferenceError ''BN'')"
    by (simp add: position_field_def BN_unbound)
  show "position_field (''BN'' # sendRequest_scope) 5 = Inr [0x05, 0, 0, 0, 0, 0, 0, 0]"
    by (simp add: position_field_bound le_bytes_numeral)
qed

section \<open>Payload lengths\<close>

lemma sendRequest_data_length_bound:
  assumes "''BN'' \<in> set scope" and "p < 2 ^ 53"
    and "length nb \<le> 128" and "length inp \<le> 512"
  shows "map_sum id length (sendRequest_data scope c r nb f p inp) = Inr 652"
  using assms
  by (simp add: sendRequest_data_def position_field_bound namee_eq ip_eq Buffer_concat_def
      Int8Array_from_def length_le_bytes)

text \<open>
  C6. The CreateClientAccount payload is the one byte \<open>01\<close> and the DeleteClient
  payload is two bytes for every client id, \<open>02 00\<close> for client 0. The SendRequest
  script yields no payload of any length: its payload expression throws. Were
  \<^verbatim>\<open>BN\<close> bound in the module, the expression would yield 652 bytes for the values
  of the script.
\<close>

theorem payload_lengths:
  "createClientAccount_data = [0x01] \<and>
   deleteClient_data 0 = [0x02, 0x00] \<and>
   length (deleteClient_data clientId) = 2 \<and>
   map_sum id length sendRequest_script_data = Inl (ReferenceError ''BN'') \<and>
   map_sum id length
     (sendRequest_data (''BN'' # sendRequest_scope) 0 1 (Buffer_from_string name) 45 5
        (Buffer_from_string ''test3'')) = Inr 652"
proof -
  have "createClientAccount_data = [0x01]"
    by (simp add: createClientAccount_data_def Int8Array_from_def)
  moreover have "deleteClient_data 0 = [0x02, 0x00]"
    by (simp add: deleteClient_data_def Int8Array_from_def Buffer_concat_def)
  moreover have "length (deleteClient_data clientId) = 2"
    by (simp add: deleteClient_data_def Int8Array_from_def Buffer_concat_def)
  moreover have "map_sum id length sendRequest_script_data = Inl (ReferenceError ''BN'')"
    by (simp add: sendRequest_script_data_def sendRequest_data_unbound)
  moreover have
    "map_sum id length
       (sendRequest_data (''BN'' # sendRequest_scope) 0 1 (Buffer_from_string name) 45 5
          (Buffer_from_string ''test3'')) = Inr 652"
    by (rule sendRequest_data_length_bound) (simp_all add: name_def Buffer_from_string_def)
  ultimately show ?thesis by simp
qed

section \<open>Account lists\<close>

text \<open>
  C4. The account lists of the three scripts, entry by entry: CreateClientAccount has
  the caller (signer, writable), the bookkeeper (writable), the request account
  (writable), the system program and the rent sysvar (both read-only); DeleteClient has
  the first three of these; SendRequest has the caller (signer, writable) and the
  request account (writable). The five accounts are different from each other.
\<close>

theorem account_lists:
  "map (\<lambda>k. (pubkey k, isSigner k, isWritable k)) createClientAccount_keys =
     [(publicKey WALLET, True, True), (bookkeeper, False, True), (request, False, True),
      (SystemProgram_programId, False, False), (SYSVAR_RENT_PUBKEY, False, False)] \<and>
   map (\<lambda>k. (pubkey k, isSigner k, isWritable k)) deleteClient_keys =
     [(publicKey WALLET, True, True), (bookkeeper, False, True), (request, False, True)] \<and>
   map (\<lambda>k. (pubkey k, isSigner k, isWritable k)) sendRequest_keys =
     [(publicKey WALLET, True, True), (request, False, True)] \<and>
   distinct [publicKey WALLET, bookkeeper, request, SystemProgram_programId, SYSVAR_RENT_PUBKEY]"
  by (simp add: createClientAccount_keys_def deleteClient_keys_def sendRequest_keys_def
      bookkeeper_def request_def findProgramAddressSync_0_def publicKey_def)

section \<open>The assembled envelope\<close>

lemma serialize_Inr: "serialize t = Inr raw \<Longrightarrow> raw = t"
  by (simp add: serialize_def split: option.splits if_splits)

lemma sign_instructions: "sign t kp = Inr t' \<Longrightarrow> instructions t' = instructions t"
  by (auto simp: sign_def Let_def split: option.splits)

lemma envelope_instructions: "instructions (add (add new_Transaction i) tx) = [i, tx]"
  by (simp add: add_def new_Transaction_def)

lemma keys_setComputeUnitLimit: "keys (setComputeUnitLimit u) = []"
  by (simp add: setComputeUnitLimit_def)

subsection \<open>The CreateClientAccount envelope passes signing and serializing\<close>

lemma createClientAccount_accounts:
  "distinct [publicKey WALLET, bookkeeper, request, SystemProgram_programId,
     SYSVAR_RENT_PUBKEY, ComputeBudgetProgram_programId, PROGRAM]"
  by (simp add: bookkeeper_def request_def findProgramAddressSync_0_def publicKey_def PROGRAM_def)

lemma envelope_account_keys:
  "account_keys (createClientAccount_envelope bh) =
     [publicKey WALLET, bookkeeper, request, SystemProgram_programId,
      SYSVAR_RENT_PUBKEY, ComputeBudgetProgram_programId, PROGRAM]"
  using createClientAccount_accounts
  by (simp add: account_keys_def createClientAccount_envelope_def fee_payer_def
      keys_setComputeUnitLimit createClientAccount_tx_def createClientAccount_keys_def
      setComputeUnitLimit_def)

lemma envelope_required_signers:
  "required_signers (createClientAccount_envelope bh) = [publicKey WALLET]"
  using createClientAccount_accounts
  by (simp add: required_signers_def envelope_account_keys)
     (simp add: createClientAccount_envelope_def fee_payer_def keys_setComputeUnitLimit
        createClientAccount_tx_def createClientAccount_keys_def)

lemma envelope_instructions_size: "instructions_size (createClientAccount_envelope bh) = 18"
  by (simp add: instructions_size_def instruction_size_def createClientAccount_envelope_def
        compact_len_def keys_setComputeUnitLimit createClientAccount_tx_def
        createClientAccount_keys_def createClientAccount_data_def Int8Array_from_def)
     (simp add: setComputeUnitLimit_def length_le_bytes)

lemma envelope_header_size: "header_size (createClientAccount_envelope bh) = 260"
  by (simp add: header_size_def envelope_account_keys compact_len_def)

lemma envelope_wire_size: "wire_size (createClientAccount_envelope bh) = 343"
  by (simp add: wire_size_def envelope_required_signers envelope_instructions_size
      envelope_header_size compact_len_def)

lemma envelope_message_error: "message_error (createClientAccount_envelope bh) = None"
  by (simp add: message_error_def compile_error_def envelope_instructions_size
        envelope_header_size envelope_account_keys)
     (simp add: createClientAccount_envelope_def fee_payer_def)

lemma envelope_serialize:
  "serialize (createClientAccount_envelope bh) = Inr (createClientAccount_envelope bh)"
  by (simp add: serialize_def envelope_message_error envelope_required_signers
        envelope_wire_size)
     (simp add: createClientAccount_envelope_def)

lemma envelope_sign:
  "sign ((add (add new_Transaction (setComputeUnitLimit 600000)) createClientAccount_tx)
           \<lparr>recentBlockhash := Some bh, feePayer := Some (publicKey WALLET)\<rparr>) WALLET
     = Inr (createClientAccount_envelope bh)"
proof -
  have "(add (add new_Transaction (setComputeUnitLimit 600000)) createClientAccount_tx)
           \<lparr>recentBlockhash := Some bh, feePayer := Some (publicKey WALLET),
             signatures := [publicKey WALLET]\<rparr>
        = createClientAccount_envelope bh"
    by (simp add: createClientAccount_envelope_def add_def new_Transaction_def)
  then show ?thesis
    by (simp add: sign_def envelope_message_error)
qed

text \<open>A run for the CreateClientAccount instruction, on any connection.\<close>

lemma createClientAccount_run:
  "transaction createClientAccount_tx connection WALLET n =
     (case getLatestBlockhash connection n of
        (Inl e, n1) \<Rightarrow> (Inl e, [GetLatestBlockhash], n1)
      | (Inr bh, n1) \<Rightarrow>
          (case sendRawTransaction connection (createClientAccount_envelope bh) n1 of
             (Inl e, n2) \<Rightarrow>
               (Inl e,
                [GetLatestBlockhash, SendRawTransaction (createClientAccount_envelope bh)], n2)
           | (Inr sg, n2) \<Rightarrow>
               (case confirmTransaction connection sg Confirmed n2 of
                  (Inl e, n3) \<Rightarrow>
                    (Inl e,
                     [GetLatestBlockhash, SendRawTransaction (createClientAccount_envelope bh),
                      ConfirmTransaction sg Confirmed], n3)
                | (Inr r, n3) \<Rightarrow>
                    (Inr sg,
                     [GetLatestBlockhash, SendRawTransaction (createClientAccount_envelope bh),
                      ConfirmTransaction sg Confirmed], n3))))"
  by (simp add: transaction_def Let_def envelope_sign envelope_serialize
      split: prod.splits sum.splits)

lemma run_stale:
  "transaction createClientAccount_tx stale_first WALLET 0 =
     (Inl (RpcError ''Blockhash not found''),
      [GetLatestBlockhash, SendRawTransaction (createClientAccount_envelope 0)], 1)"
  by (simp add: createClientAccount_run stale_first_def createClientAccount_envelope_def)

lemma run_fresh:
  "transaction createClientAccount_tx stale_first WALLET 1 =
     (Inr ''5sig'',
      [GetLatestBlockhash, SendRawTransaction (createClientAccount_envelope 1),
       ConfirmTransaction ''5sig'' Confirmed], 2)"
  by (simp add: createClientAccount_run stale_first_def createClientAccount_envelope_def)


text \<open>
  C8. The envelope that \<^verbatim>\<open>transaction\<close> builds for an operation instruction holds
  exactly two instructions, the compute-unit limit first and the operation second, and
  every envelope a run submits to the network holds exactly these two in that order.
\<close>

theorem transaction_envelope_order:
  "instructions (add (add new_Transaction (setComputeUnitLimit 600000)) tx)
     = [setComputeUnitLimit 600000, tx] \<and>
   (\<forall>raw. SendRawTransaction raw \<in> set (fst (snd (transaction tx connection wallet n)))
      \<longrightarrow> instructions raw = [setComputeUnitLimit 600000, tx])"
proof (intro conjI allI impI)
  show "instructions (add (add new_Transaction (setComputeUnitLimit 600000)) tx)
          = [setComputeUnitLimit 600000, tx]"
    by (rule envelope_instructions)
next
  fix raw
  assume "SendRawTransaction raw \<in> set (fst (snd (transaction tx connection wallet n)))"
  then show "instructions raw = [setComputeUnitLimit 600000, tx]"
    by (auto simp: transaction_def Let_def envelope_instructions
          split: prod.splits sum.splits
          dest!: serialize_Inr sign_instructions)
qed

theorem transaction_envelope_order_witness:
  "SendRawTransaction
     \<lparr>instructions = [setComputeUnitLimit 600000, createClientAccount_tx],
      recentBlockhash = Some 1, feePayer = Some (publicKey WALLET),
      signatures = [publicKey WALLET]\<rparr>
     \<in> set (fst (snd (transaction createClientAccount_tx stale_first WALLET 1))) \<and>
   instructions
     \<lparr>instructions = [setComputeUnitLimit 600000, createClientAccount_tx],
      recentBlockhash = Some 1, feePayer = Some (publicKey WALLET),
      signatures = [publicKey WALLET]\<rparr>
     = [setComputeUnitLimit 600000, createClientAccount_tx]"
proof -
  have sent:
    "SendRawTransaction
       \<lparr>instructions = [setComputeUnitLimit 600000, createClientAccount_tx],
        recentBlockhash = Some 1, feePayer = Some (publicKey WALLET),
        signatures = [publicKey WALLET]\<rparr>
       \<in> set (fst (snd (transaction createClientAccount_tx stale_first WALLET 1)))"
    unfolding run_fresh createClientAccount_envelope_def by simp
  from transaction_envelope_order [of createClientAccount_tx stale_first WALLET 1] sent
  show ?thesis by blast
qed

section \<open>Rejected submissions\<close>

text \<open>
  C9 (as stated). The claim has a submission that is rejected for an expired blockhash
  recovered by fetching a fresh blockhash and submitting again. On a network whose
  first blockhash is expired and whose second is fresh, a run fetches the blockhash
  once, submits once, and ends with the rejection; a second run, which gets the fresh
  blockhash, would have succeeded.
\<close>

theorem stale_blockhash_counterexample:
  "transaction createClientAccount_tx stale_first WALLET 0 =
     (Inl (RpcError ''Blockhash not found''),
      [GetLatestBlockhash,
       SendRawTransaction
         \<lparr>instructions = [setComputeUnitLimit 600000, createClientAccount_tx],
          recentBlockhash = Some 0, feePayer = Some (publicKey WALLET),
          signatures = [publicKey WALLET]\<rparr>], 1) \<and>
   fst (transaction createClientAccount_tx stale_first WALLET 1) = Inr ''5sig''"
  unfolding run_stale run_fresh createClientAccount_envelope_def by simp

text \<open>
  C9 (amended). When the submission is rejected, for an expired blockhash or for any
  other reason, \<^verbatim>\<open>transaction\<close> ends with that rejection as its error: every run
  fetches the blockhash exactly once and submits at most once, so nothing is fetched
  again and nothing is retried.
\<close>

theorem transaction_single_attempt:
  "length (filter is_fetch (fst (snd (transaction tx connection wallet n)))) = 1 \<and>
   length (filter is_send (fst (snd (transaction tx connection wallet n)))) \<le> 1 \<and>
   (\<forall>raw e n2.
      SendRawTransaction raw \<in> set (fst (snd (transaction tx connection wallet n))) \<and>
      sendRawTransaction connection raw (snd (getLatestBlockhash connection n)) = (Inl e, n2)
      \<longrightarrow> transaction tx connection wallet n
            = (Inl e, [GetLatestBlockhash, SendRawTransaction raw], n2))"
  by (auto simp: transaction_def Let_def split: prod.splits sum.splits)

theorem transaction_single_attempt_witness:
  "SendRawTransaction
     \<lparr>instructions = [setComputeUnitLimit 600000, createClientAccount_tx],
      recentBlockhash = Some 0, feePayer = Some (publicKey WALLET),
      signatures = [publicKey WALLET]\<rparr>
     \<in> set (fst (snd (transaction createClientAccount_tx stale_first WALLET 0))) \<and>
   sendRawTransaction stale_first
     \<lparr>instructions = [setComputeUnitLimit 600000, createClientAccount_tx],
      recentBlockhash = Some 0, feePayer = Some (publicKey WALLET),
      signatures = [publicKey WALLET]\<rparr>
     (snd (getLatestBlockhash stale_first 0)) = (Inl (RpcError ''Blockhash not found''), 1) \<and>
   transaction createClientAccount_tx stale_first WALLET 0 =
     (Inl (RpcError ''Blockhash not found''),
      [GetLatestBlockhash,
       SendRawTransaction
         \<lparr>instructions = [setComputeUnitLimit 600000, createClientAccount_tx],
          recentBlockhash = Some 0, feePayer = Some (publicKey WALLET),
          signatures = [publicKey WALLET]\<rparr>], 1) \<and>
   length (filter is_fetch (fst (snd (transaction createClientAccount_tx stale_first WALLET 0))))
     = 1"
proof -
  have sent:
    "SendRawTransaction
       \<lparr>instructions = [setComputeUnitLimit 600000, createClientAccount_tx],
        recentBlockhash = Some 0, feePayer = Some (publicKey WALLET),
        signatures = [publicKey WALLET]\<rparr>
       \<in> set (fst (snd (transaction createClientAccount_tx stale_first WALLET 0)))"
    unfolding run_stale createClientAccount_envelope_def by simp
  have rejected:
    "sendRawTransaction stale_first
       \<lparr>instructions = [setComputeUnitLimit 600000, createClientAccount_tx],
        recentBlockhash = Some 0, feePayer = Some (publicKey WALLET),
        signatures = [publicKey WALLET]\<rparr>
       (snd (getLatestBlockhash stale_first 0)) = (Inl (RpcError ''Blockhash not found''), 1)"
    by (simp add: stale_first_def)
  from transaction_single_attempt [of createClientAccount_tx stale_first WALLET 0] sent rejected
  show ?thesis by blast
qed

section \<open>The confirmation poll\<close>




end
